theory Spec2Isabelle
  imports Complex_Main "HOL-Library.Word"
begin

section \<open>Data model of package metrics\<close>

text \<open>
  Go's \<^verbatim>\<open>int\<close> is a two's complement machine integer; it is modelled at its width on
  64-bit targets, as a \<open>64 word\<close> read through \<open>sint\<close>. Addition and multiplication wrap
  around, as the Go specification prescribes for signed integers.
\<close>

type_synonym go_int = "64 word"

text \<open>
  A \<^verbatim>\<open>float64\<close> is modelled by the value it denotes: a real number, one of the two
  infinities, or NaN. Rounding to the nearest representable double is not modelled.
\<close>

datatype float64 = NaN | NegInf | Finite real | PosInf

text \<open>The comparisons \<^verbatim>\<open>x < c\<close> and \<^verbatim>\<open>x >= c\<close> of a float64 with a finite constant:
  both are false on NaN.\<close>

fun f64_lt :: "float64 \<Rightarrow> real \<Rightarrow> bool" where
  "f64_lt NaN c = False"
| "f64_lt NegInf c = True"
| "f64_lt (Finite r) c = (r < c)"
| "f64_lt PosInf c = False"

fun f64_ge :: "float64 \<Rightarrow> real \<Rightarrow> bool" where
  "f64_ge NaN c = False"
| "f64_ge NegInf c = False"
| "f64_ge (Finite r) c = (c \<le> r)"
| "f64_ge PosInf c = True"

text \<open>The conversion \<^verbatim>\<open>float64(n)\<close> of an int.\<close>

definition float64_of_int :: "go_int \<Rightarrow> float64" where
  "float64_of_int n = Finite (real_of_int (sint n))"

text \<open>\<^verbatim>\<open>math.Sqrt\<close>, with the special cases of its documentation:
  \<^verbatim>\<open>Sqrt(+Inf) = +Inf\<close>, \<^verbatim>\<open>Sqrt(x < 0) = NaN\<close>, \<^verbatim>\<open>Sqrt(NaN) = NaN\<close>.\<close>

fun Sqrt :: "float64 \<Rightarrow> float64" where
  "Sqrt NaN = NaN"
| "Sqrt NegInf = NaN"
| "Sqrt (Finite r) = (if r < 0 then NaN else Finite (sqrt r))"
| "Sqrt PosInf = PosInf"

text \<open>The struct \<^verbatim>\<open>MetricDetail\<close>.\<close>

record MetricDetail =
  Line :: go_int
  Col :: go_int
  Text :: string
  Context :: string

text \<open>The struct \<^verbatim>\<open>ABCMetrics\<close>. A slice is modelled by the list of its elements.\<close>

record ABCMetrics =
  Assignments :: go_int
  Branches :: go_int
  Conditions :: go_int
  AssignmentList :: "MetricDetail list"
  BranchList :: "MetricDetail list"
  ConditionList :: "MetricDetail list"

section \<open>The verbs of package fmt that the program uses\<close>

text \<open>
  The program formats with \<^verbatim>\<open>%d\<close> on ints, \<^verbatim>\<open>%s\<close> on strings and \<^verbatim>\<open>%.2f\<close> on a
  float64. The standard library is not part of the repository; its documented behaviour
  on these three verbs is modelled here.
\<close>

datatype fmt_arg = IntArg go_int | StringArg string | Float64Arg float64

definition digit_char :: "nat \<Rightarrow> char" where
  "digit_char d = ''0123456789'' ! d"

fun nat_digits :: "nat \<Rightarrow> string" where
  "nat_digits n =
     (if n < 10 then [digit_char n] else nat_digits (n div 10) @ [digit_char (n mod 10)])"

declare nat_digits.simps [simp del]

text \<open>\<^verbatim>\<open>%d\<close>: the decimal digits of the signed value, with a minus sign when negative.\<close>

definition fmt_d :: "go_int \<Rightarrow> string" where
  "fmt_d n =
     (if sint n < 0 then CHR ''-'' # nat_digits (nat (- sint n))
      else nat_digits (nat (sint n)))"

text \<open>\<^verbatim>\<open>%.2f\<close>: the value rounded to the nearest hundredth, a tie going to the even
  neighbour, printed with the sign, the integer part, a point and two digits; NaN and
  the infinities print as \<^verbatim>\<open>NaN\<close>, \<^verbatim>\<open>+Inf\<close> and \<^verbatim>\<open>-Inf\<close>.\<close>

definition round_half_even :: "real \<Rightarrow> nat" where
  "round_half_even x =
     (let f = \<lfloor>x\<rfloor> in
      if x - of_int f < 1 / 2 then nat f
      else if 1 / 2 < x - of_int f then nat f + 1
      else if even f then nat f else nat f + 1)"

definition fixed2 :: "real \<Rightarrow> string" where
  "fixed2 r =
     (let q = round_half_even (\<bar>r\<bar> * 100) in
      (if r < 0 then ''-'' else []) @ nat_digits (q div 100) @ ''.''
        @ [digit_char (q div 10 mod 10), digit_char (q mod 10)])"

fun fmt_f2 :: "float64 \<Rightarrow> string" where
  "fmt_f2 NaN = ''NaN''"
| "fmt_f2 NegInf = ''-Inf''"
| "fmt_f2 (Finite r) = fixed2 r"
| "fmt_f2 PosInf = ''+Inf''"

text \<open>
  \<^verbatim>\<open>fmt.Sprintf\<close> scans the format from left to right: a verb consumes the next operand
  and is replaced by its rendering, every other character is copied. Only a verb of the
  three above that meets an operand of its type is interpreted; the program has no other
  call, and the error markers that package fmt prints for a wrong or missing operand are
  not modelled (such a verb is copied as it stands).
\<close>

fun Sprintf :: "string \<Rightarrow> fmt_arg list \<Rightarrow> string" where
  "Sprintf [] args = []"
| "Sprintf (c # fmt) args =
     (if c = CHR ''%'' \<and> take 1 fmt = ''d'' then
        (case args of
           IntArg n # args' \<Rightarrow> fmt_d n @ Sprintf (drop 1 fmt) args'
         | _ \<Rightarrow> c # Sprintf fmt args)
      else if c = CHR ''%'' \<and> take 1 fmt = ''s'' then
        (case args of
           StringArg s # args' \<Rightarrow> s @ Sprintf (drop 1 fmt) args'
         | _ \<Rightarrow> c # Sprintf fmt args)
      else if c = CHR ''%'' \<and> take 3 fmt = ''.2f'' then
        (case args of
           Float64Arg x # args' \<Rightarrow> fmt_f2 x @ Sprintf (drop 3 fmt) args'
         | _ \<Rightarrow> c # Sprintf fmt args)
      else c # Sprintf fmt args)"

text \<open>\<^verbatim>\<open>fmt.Println\<close> of one string: the string and a newline. Standard output is
  modelled by the text written to it.\<close>

definition Println :: "string \<Rightarrow> string" where
  "Println s = s @ ''\<newline>''"

section \<open>Score, String, CombineMetrics and SeverityLevel\<close>

text \<open>\<^verbatim>\<open>func (m ABCMetrics) Score() float64\<close>: the sum of the squares is computed on
  ints, converted to float64 and passed to \<^verbatim>\<open>math.Sqrt\<close>.\<close>

definition Score_arg :: "ABCMetrics \<Rightarrow> go_int" where
  "Score_arg m =
     Assignments m * Assignments m + Branches m * Branches m + Conditions m * Conditions m"

definition Score :: "ABCMetrics \<Rightarrow> float64" where
  "Score m = Sqrt (float64_of_int (Score_arg m))"

text \<open>\<^verbatim>\<open>func (m ABCMetrics) String() string\<close>.\<close>

definition String :: "ABCMetrics \<Rightarrow> string" where
  "String m =
     Sprintf ''ABC: %.2f (A=%d, B=%d, C=%d)''
       [Float64Arg (Score m), IntArg (Assignments m), IntArg (Branches m),
        IntArg (Conditions m)]"

text \<open>\<^verbatim>\<open>func SeverityLevel(score float64) string\<close>: a switch whose cases are tried in
  order.\<close>

definition SeverityLevel :: "float64 \<Rightarrow> string" where
  "SeverityLevel score =
     (if f64_lt score 10 then ''Low''
      else if f64_lt score 20 then ''Medium''
      else if f64_lt score 40 then ''High''
      else ''Very High'')"

text \<open>The zero value \<^verbatim>\<open>ABCMetrics{}\<close>: counts 0, slices nil.\<close>

definition ABCMetrics_zero :: ABCMetrics where
  "ABCMetrics_zero =
     \<lparr>Assignments = 0, Branches = 0, Conditions = 0,
      AssignmentList = [], BranchList = [], ConditionList = []\<rparr>"

text \<open>\<^verbatim>\<open>func CombineMetrics(metrics ...ABCMetrics) ABCMetrics\<close>: the range loop over the
  arguments, with the accumulator \<^verbatim>\<open>combined\<close> passed along.\<close>

fun combine_loop :: "ABCMetrics \<Rightarrow> ABCMetrics list \<Rightarrow> ABCMetrics" where
  "combine_loop combined [] = combined"
| "combine_loop combined (m # metrics) =
     combine_loop
       (combined\<lparr>Assignments := Assignments combined + Assignments m,
                 Branches := Branches combined + Branches m,
                 Conditions := Conditions combined + Conditions m,
                 AssignmentList := AssignmentList combined @ AssignmentList m,
                 BranchList := BranchList combined @ BranchList m,
                 ConditionList := ConditionList combined @ ConditionList m\<rparr>)
       metrics"

definition CombineMetrics :: "ABCMetrics list \<Rightarrow> ABCMetrics" where
  "CombineMetrics metrics = combine_loop ABCMetrics_zero metrics"

section \<open>The report of the analyze command\<close>

text \<open>
  The \<^verbatim>\<open>Run\<close> function of \<^verbatim>\<open>analyzeCmd\<close>, from the point where the analyzer has
  returned \<^verbatim>\<open>abcMetrics\<close> (package analyzer is not part of the sources, so its result
  is a parameter). Each range loop carries its index \<^verbatim>\<open>i\<close>, an int starting at 0.
\<close>

fun print_detail_loop :: "go_int \<Rightarrow> MetricDetail list \<Rightarrow> string" where
  "print_detail_loop i [] = []"
| "print_detail_loop i (d # ds) =
     Sprintf ''  %d. Line %d: %s (%s)\<newline>''
       [IntArg (i + 1), IntArg (Line d), StringArg (Text d), StringArg (Context d)]
     @ print_detail_loop (i + 1) ds"

definition print_details :: "ABCMetrics \<Rightarrow> string" where
  "print_details abcMetrics =
     Println ''\<newline>Assignments:'' @ print_detail_loop 0 (AssignmentList abcMetrics)
     @ Println ''\<newline>Branches:'' @ print_detail_loop 0 (BranchList abcMetrics)
     @ Println ''\<newline>Conditions:'' @ print_detail_loop 0 (ConditionList abcMetrics)"

definition analyzeCmd_report :: "bool \<Rightarrow> ABCMetrics \<Rightarrow> string" where
  "analyzeCmd_report showDetails abcMetrics =
     Println (String abcMetrics)
     @ Sprintf ''Complexity: %s\<newline>'' [StringArg (SeverityLevel (Score abcMetrics))]
     @ (if showDetails then print_details abcMetrics else [])"

section \<open>Notions of the specification\<close>

text \<open>The sum \<open>A\<^sup>2 + B\<^sup>2 + C\<^sup>2\<close> of the specification, on the integers that the three
  counts denote, without wrap-around.\<close>

definition sum_of_squares :: "ABCMetrics \<Rightarrow> int" where
  "sum_of_squares m =
     (sint (Assignments m))\<^sup>2 + (sint (Branches m))\<^sup>2 + (sint (Conditions m))\<^sup>2"

text \<open>The comparison \<^verbatim>\<open>x <= y\<close> of two float64 values, false when either is NaN.\<close>

fun f64_le :: "float64 \<Rightarrow> float64 \<Rightarrow> bool" where
  "f64_le NaN y = False"
| "f64_le x NaN = False"
| "f64_le NegInf y = True"
| "f64_le x PosInf = True"
| "f64_le (Finite x) (Finite y) = (x \<le> y)"
| "f64_le PosInf y = False"
| "f64_le x NegInf = False"

text \<open>The invariant of the accumulator: the length of each evidence list equals its
  count.\<close>

definition counts_match :: "ABCMetrics \<Rightarrow> bool" where
  "counts_match m \<longleftrightarrow>
     int (length (AssignmentList m)) = sint (Assignments m)
     \<and> int (length (BranchList m)) = sint (Branches m)
     \<and> int (length (ConditionList m)) = sint (Conditions m)"

text \<open>The length of a Go slice is an int. HOL lists are unbounded, so a list models a
  slice only when it is shorter than \<open>2 ^ 63\<close>.\<close>

definition slice_ok :: "'a list \<Rightarrow> bool" where
  "slice_ok xs \<longleftrightarrow> length xs < 2 ^ 63"

definition slices_ok :: "ABCMetrics \<Rightarrow> bool" where
  "slices_ok m \<longleftrightarrow>
     slice_ok (AssignmentList m) \<and> slice_ok (BranchList m) \<and> slice_ok (ConditionList m)"

text \<open>The line of the detail listing as the specification words it,
  \<^verbatim>\<open>"  {index}. Line {line}: {text} ({context})"\<close>, and the listing of one evidence list:
  one line per record, in list order, the first record with index 1.\<close>

definition spec_detail_line :: "nat \<Rightarrow> MetricDetail \<Rightarrow> string" where
  "spec_detail_line index d =
     ''  '' @ nat_digits index @ ''. Line '' @ fmt_d (Line d) @ '': '' @ Text d
     @ '' ('' @ Context d @ '')''"

definition spec_detail_listing :: "MetricDetail list \<Rightarrow> string" where
  "spec_detail_listing ds =
     concat (map (\<lambda>k. spec_detail_line (k + 1) (ds ! k) @ ''\<newline>'') [0..<length ds])"

section \<open>The severity bands\<close>

text \<open>
  C2. SeverityLevel maps every score to one of the four distinct literals \<open>Low\<close>,
  \<open>Medium\<close>, \<open>High\<close>, \<open>Very High\<close>: a score below 10 to \<open>Low\<close>, a score from 10 up to but
  excluding 20 to \<open>Medium\<close>, a score from 20 up to but excluding 40 to \<open>High\<close>, a score of
  40 or more to \<open>Very High\<close>; exactly 10 is \<open>Medium\<close>, exactly 20 is \<open>High\<close> and exactly 40
  is \<open>Very High\<close>.
\<close>

theorem SeverityLevel_bands:
  "SeverityLevel s \<in> {''Low'', ''Medium'', ''High'', ''Very High''}
   \<and> distinct [''Low'', ''Medium'', ''High'', ''Very High'']
   \<and> (f64_lt s 10 \<longrightarrow> SeverityLevel s = ''Low'')
   \<and> (f64_ge s 10 \<and> f64_lt s 20 \<longrightarrow> SeverityLevel s = ''Medium'')
   \<and> (f64_ge s 20 \<and> f64_lt s 40 \<longrightarrow> SeverityLevel s = ''High'')
   \<and> (f64_ge s 40 \<longrightarrow> SeverityLevel s = ''Very High'')
   \<and> SeverityLevel (Finite 10) = ''Medium''
   \<and> SeverityLevel (Finite 20) = ''High''
   \<and> SeverityLevel (Finite 40) = ''Very High''"
  by (cases s) (simp_all add: SeverityLevel_def)

theorem SeverityLevel_bands_witness:
  "f64_lt (Finite 5) 10 \<and> SeverityLevel (Finite 5) = ''Low''
   \<and> f64_ge (Finite 15) 10 \<and> f64_lt (Finite 15) 20 \<and> SeverityLevel (Finite 15) = ''Medium''
   \<and> f64_ge (Finite 25) 20 \<and> f64_lt (Finite 25) 40 \<and> SeverityLevel (Finite 25) = ''High''
   \<and> f64_ge PosInf 40 \<and> SeverityLevel PosInf = ''Very High''"
  using SeverityLevel_bands [of "Finite 5"] SeverityLevel_bands [of "Finite 15"]
    SeverityLevel_bands [of "Finite 25"] SeverityLevel_bands [of PosInf]
  by simp

text \<open>
  C10. SeverityLevel is defined on every score, and every negative score, minus infinity
  included, is mapped to \<open>Low\<close>.
\<close>

theorem SeverityLevel_negative:
  "f64_lt s 0 \<Longrightarrow> SeverityLevel s = ''Low''"
  by (cases s) (simp_all add: SeverityLevel_def)

theorem SeverityLevel_negative_witness:
  "f64_lt (Finite (- 3)) 0 \<and> SeverityLevel (Finite (- 3)) = ''Low''
   \<and> f64_lt NegInf 0 \<and> SeverityLevel NegInf = ''Low''"
  using SeverityLevel_negative [of "Finite (- 3)"] SeverityLevel_negative [of NegInf]
  by simp

text \<open>NaN meets none of the comparisons and takes the default arm of the switch.\<close>

lemma SeverityLevel_NaN: "SeverityLevel NaN = ''Very High''"
  by (simp add: SeverityLevel_def)

section \<open>Score\<close>

lemma sint_word_of_int_64:
  "- (2 ^ 63) \<le> i \<Longrightarrow> i < 2 ^ 63 \<Longrightarrow> sint (word_of_int i :: 64 word) = i"
  by (simp add: sint_sbintrunc' signed_take_bit_int_eq_self)

lemma sint_of_nat_64: "n < 2 ^ 63 \<Longrightarrow> sint (word_of_nat n :: 64 word) = int n"
  using sint_word_of_int_64 [of "int n"] by simp

lemma Score_arg_word_of_int: "Score_arg m = word_of_int (sum_of_squares m)"
  by (simp add: Score_arg_def sum_of_squares_def power2_eq_square)

lemma sum_of_squares_nonneg: "0 \<le> sum_of_squares m"
  by (simp add: sum_of_squares_def)

lemma Score_arg_no_overflow:
  assumes "sum_of_squares m < 2 ^ 63"
  shows "sint (Score_arg m) = sum_of_squares m"
proof -
  have "- (2 ^ 63) \<le> sum_of_squares m"
    using sum_of_squares_nonneg [of m] by simp
  then show ?thesis
    using assms by (simp add: Score_arg_word_of_int sint_word_of_int_64)
qed

lemma Score_no_overflow:
  assumes "sum_of_squares m < 2 ^ 63"
  shows "Score m = Finite (sqrt (real_of_int (sum_of_squares m)))"
  using sum_of_squares_nonneg [of m]
  by (simp add: Score_def float64_of_int_def Score_arg_no_overflow [OF assms])

lemma sum_of_squares_mono:
  assumes "0 \<le> sint (Assignments m)" "sint (Assignments m) \<le> sint (Assignments m')"
    and "0 \<le> sint (Branches m)" "sint (Branches m) \<le> sint (Branches m')"
    and "0 \<le> sint (Conditions m)" "sint (Conditions m) \<le> sint (Conditions m')"
  shows "sum_of_squares m \<le> sum_of_squares m'"
  unfolding sum_of_squares_def using assms
  by (intro add_mono power_mono)

text \<open>
  C1, as stated, fails: with \<open>2 ^ 32\<close> assignments the square wraps around to 0 in the
  int arithmetic, and Score returns 0 where the formula gives \<open>2 ^ 32\<close>.
\<close>

theorem Score_formula_counterexample:
  "Score \<lparr>Assignments = 4294967296, Branches = 0, Conditions = 0,
      AssignmentList = [], BranchList = [], ConditionList = []\<rparr> = Finite 0
   \<and> sqrt (real_of_int (sum_of_squares \<lparr>Assignments = 4294967296, Branches = 0, Conditions = 0,
      AssignmentList = [], BranchList = [], ConditionList = []\<rparr>)) = 4294967296
   \<and> Score \<lparr>Assignments = 4294967296, Branches = 0, Conditions = 0,
      AssignmentList = [], BranchList = [], ConditionList = []\<rparr> \<noteq> Finite (sqrt (real_of_int (sum_of_squares \<lparr>Assignments = 4294967296, Branches = 0, Conditions = 0,
      AssignmentList = [], BranchList = [], ConditionList = []\<rparr>)))"
  by (simp add: Score_def Score_arg_def float64_of_int_def sum_of_squares_def)

text \<open>
  C1, amended. For every accumulator whose counts A, B, C have \<open>A\<^sup>2 + B\<^sup>2 + C\<^sup>2\<close> below
  \<open>2 ^ 63\<close>, Score returns \<open>sqrt (A\<^sup>2 + B\<^sup>2 + C\<^sup>2)\<close>; and for every accumulator the
  result is computed from the three counts only: replacing the evidence lists does not
  change it.
\<close>

theorem Score_formula_no_overflow:
  "(sum_of_squares m < 2 ^ 63 \<longrightarrow> Score m = Finite (sqrt (real_of_int (sum_of_squares m))))
   \<and> Score (m\<lparr>AssignmentList := as, BranchList := bs, ConditionList := cs\<rparr>) = Score m"
  by (simp add: Score_no_overflow) (simp add: Score_def Score_arg_def)

theorem Score_formula_no_overflow_witness:
  "sum_of_squares \<lparr>Assignments = 3, Branches = 4, Conditions = 0,
      AssignmentList = [], BranchList = [], ConditionList = []\<rparr> < 2 ^ 63
   \<and> Score \<lparr>Assignments = 3, Branches = 4, Conditions = 0,
      AssignmentList = [], BranchList = [], ConditionList = []\<rparr> = Finite 5"
  using Score_formula_no_overflow [of "\<lparr>Assignments = 3, Branches = 4, Conditions = 0,
      AssignmentList = [], BranchList = [], ConditionList = []\<rparr>"]
  by (simp add: sum_of_squares_def)

text \<open>
  C6, as stated, fails: raising the assignment count from 1 to \<open>2 ^ 32\<close>, with no
  branches and no conditions, lowers the score from 1 to 0.
\<close>

theorem Score_monotone_counterexample:
  "0 \<le> sint (1 :: go_int) \<and> sint (1 :: go_int) \<le> sint (4294967296 :: go_int)
   \<and> Score \<lparr>Assignments = 1, Branches = 0, Conditions = 0,
      AssignmentList = [], BranchList = [], ConditionList = []\<rparr> = Finite 1
   \<and> Score \<lparr>Assignments = 4294967296, Branches = 0, Conditions = 0,
      AssignmentList = [], BranchList = [], ConditionList = []\<rparr> = Finite 0
   \<and> \<not> f64_le (Score \<lparr>Assignments = 1, Branches = 0, Conditions = 0,
      AssignmentList = [], BranchList = [], ConditionList = []\<rparr>) (Score \<lparr>Assignments = 4294967296, Branches = 0, Conditions = 0,
      AssignmentList = [], BranchList = [], ConditionList = []\<rparr>)"
  by (simp add: Score_def Score_arg_def float64_of_int_def)

text \<open>
  C6, amended. For non-negative counts, raising counts never lowers the score as long as
  the sum of the squares of the raised counts stays below \<open>2 ^ 63\<close>; raising a single
  count with the other two fixed is the case where two of the three inequalities are
  equalities.
\<close>

theorem Score_monotone_no_overflow:
  assumes "0 \<le> sint (Assignments m)" "sint (Assignments m) \<le> sint (Assignments m')"
    and "0 \<le> sint (Branches m)" "sint (Branches m) \<le> sint (Branches m')"
    and "0 \<le> sint (Conditions m)" "sint (Conditions m) \<le> sint (Conditions m')"
    and "sum_of_squares m' < 2 ^ 63"
  shows "f64_le (Score m) (Score m')"
proof -
  have le: "sum_of_squares m \<le> sum_of_squares m'"
    using assms(1-6) by (rule sum_of_squares_mono)
  then have "sum_of_squares m < 2 ^ 63"
    using assms(7) by simp
  then have "Score m = Finite (sqrt (real_of_int (sum_of_squares m)))"
    by (rule Score_no_overflow)
  moreover have "Score m' = Finite (sqrt (real_of_int (sum_of_squares m')))"
    using assms(7) by (rule Score_no_overflow)
  ultimately show ?thesis
    using le by simp
qed

theorem Score_monotone_no_overflow_witness:
  "sum_of_squares \<lparr>Assignments = 3, Branches = 4, Conditions = 0,
      AssignmentList = [], BranchList = [], ConditionList = []\<rparr> < 2 ^ 63
   \<and> f64_le (Score \<lparr>Assignments = 3, Branches = 0, Conditions = 0,
      AssignmentList = [], BranchList = [], ConditionList = []\<rparr>) (Score \<lparr>Assignments = 3, Branches = 4, Conditions = 0,
      AssignmentList = [], BranchList = [], ConditionList = []\<rparr>)"
  using Score_monotone_no_overflow [of "\<lparr>Assignments = 3, Branches = 0, Conditions = 0,
      AssignmentList = [], BranchList = [], ConditionList = []\<rparr>" "\<lparr>Assignments = 3, Branches = 4, Conditions = 0,
      AssignmentList = [], BranchList = [], ConditionList = []\<rparr>"]
  by (simp add: sum_of_squares_def)

text \<open>
  C9, as stated, fails: with 3037000500 assignments the square exceeds \<open>2 ^ 63 - 1\<close>, the
  int product wraps around to a negative number, and \<^verbatim>\<open>math.Sqrt\<close> returns NaN.
\<close>

theorem Score_total_counterexample:
  "sint (Score_arg \<lparr>Assignments = 3037000500, Branches = 0, Conditions = 0,
      AssignmentList = [], BranchList = [], ConditionList = []\<rparr>) = - 9223372036709301616
   \<and> Score \<lparr>Assignments = 3037000500, Branches = 0, Conditions = 0,
      AssignmentList = [], BranchList = [], ConditionList = []\<rparr> = NaN"
  by (simp add: Score_def Score_arg_def float64_of_int_def)

lemma Score_NaN_iff: "Score m = NaN \<longleftrightarrow> sint (Score_arg m) < 0"
  by (simp add: Score_def float64_of_int_def del: of_int_sint)

text \<open>
  C9, amended. For every triple of counts (A, B, C), negative values included, with
  \<open>A\<^sup>2 + B\<^sup>2 + C\<^sup>2\<close> below \<open>2 ^ 63\<close>, the argument passed to the square root is that
  sum and is non-negative, so Score returns a non-negative number and not NaN.
\<close>

theorem Score_defined_no_overflow:
  assumes "sum_of_squares m < 2 ^ 63"
  shows "sint (Score_arg m) = sum_of_squares m \<and> 0 \<le> sint (Score_arg m)
         \<and> Score m \<noteq> NaN \<and> (\<exists>r. Score m = Finite r \<and> 0 \<le> r)"
proof (intro conjI)
  show eq: "sint (Score_arg m) = sum_of_squares m"
    using assms by (rule Score_arg_no_overflow)
  then show "0 \<le> sint (Score_arg m)"
    using sum_of_squares_nonneg [of m] by simp
  then show "Score m \<noteq> NaN"
    by (simp add: Score_NaN_iff)
  show "\<exists>r. Score m = Finite r \<and> 0 \<le> r"
    using Score_no_overflow [OF assms] sum_of_squares_nonneg [of m] by simp
qed

theorem Score_defined_no_overflow_witness:
  "sum_of_squares \<lparr>Assignments = - 3, Branches = 4, Conditions = 0,
      AssignmentList = [], BranchList = [], ConditionList = []\<rparr> < 2 ^ 63
   \<and> sint (Score_arg \<lparr>Assignments = - 3, Branches = 4, Conditions = 0,
      AssignmentList = [], BranchList = [], ConditionList = []\<rparr>) = 25
   \<and> (\<exists>r. Score \<lparr>Assignments = - 3, Branches = 4, Conditions = 0,
      AssignmentList = [], BranchList = [], ConditionList = []\<rparr> = Finite r \<and> 0 \<le> r)"
  using Score_defined_no_overflow [of "\<lparr>Assignments = - 3, Branches = 4, Conditions = 0,
      AssignmentList = [], BranchList = [], ConditionList = []\<rparr>"]
  by (simp add: sum_of_squares_def)

section \<open>CombineMetrics\<close>

lemma combine_loop_fields:
  "Assignments (combine_loop acc ms) = Assignments acc + sum_list (map Assignments ms)"
  "Branches (combine_loop acc ms) = Branches acc + sum_list (map Branches ms)"
  "Conditions (combine_loop acc ms) = Conditions acc + sum_list (map Conditions ms)"
  "AssignmentList (combine_loop acc ms) = AssignmentList acc @ concat (map AssignmentList ms)"
  "BranchList (combine_loop acc ms) = BranchList acc @ concat (map BranchList ms)"
  "ConditionList (combine_loop acc ms) = ConditionList acc @ concat (map ConditionList ms)"
  by (induction acc ms rule: combine_loop.induct; simp add: add.assoc)+

lemma CombineMetrics_fields:
  "Assignments (CombineMetrics ms) = sum_list (map Assignments ms)"
  "Branches (CombineMetrics ms) = sum_list (map Branches ms)"
  "Conditions (CombineMetrics ms) = sum_list (map Conditions ms)"
  "AssignmentList (CombineMetrics ms) = concat (map AssignmentList ms)"
  "BranchList (CombineMetrics ms) = concat (map BranchList ms)"
  "ConditionList (CombineMetrics ms) = concat (map ConditionList ms)"
  by (simp_all add: CombineMetrics_def combine_loop_fields ABCMetrics_zero_def)

text \<open>
  C3. CombineMetrics is associative: combining the combination of a and b with c gives
  the same accumulator as combining a with the combination of b and c, and both are the
  combination of a, b and c. For any number of arguments each count of the result is
  the sum of the arguments' counts, and each evidence list is the concatenation of the
  arguments' lists in argument order.
\<close>

theorem CombineMetrics_assoc:
  "CombineMetrics [CombineMetrics [a, b], c] = CombineMetrics [a, CombineMetrics [b, c]]
   \<and> CombineMetrics [CombineMetrics [a, b], c] = CombineMetrics [a, b, c]
   \<and> Assignments (CombineMetrics ms) = sum_list (map Assignments ms)
   \<and> Branches (CombineMetrics ms) = sum_list (map Branches ms)
   \<and> Conditions (CombineMetrics ms) = sum_list (map Conditions ms)
   \<and> AssignmentList (CombineMetrics ms) = concat (map AssignmentList ms)
   \<and> BranchList (CombineMetrics ms) = concat (map BranchList ms)
   \<and> ConditionList (CombineMetrics ms) = concat (map ConditionList ms)"
proof -
  have "CombineMetrics [CombineMetrics [a, b], c] = CombineMetrics [a, CombineMetrics [b, c]]"
    by (rule ABCMetrics.equality) (simp_all add: CombineMetrics_fields add.assoc)
  moreover have "CombineMetrics [CombineMetrics [a, b], c] = CombineMetrics [a, b, c]"
    by (rule ABCMetrics.equality) (simp_all add: CombineMetrics_fields add.assoc)
  ultimately show ?thesis
    by (simp only: CombineMetrics_fields)
qed

text \<open>
  C5. The zero accumulator, all counts 0 and all evidence lists empty, is an identity of
  CombineMetrics on either side. (A nil slice and an empty slice are the same list.)
\<close>

theorem CombineMetrics_identity:
  "CombineMetrics [a, ABCMetrics_zero] = a \<and> CombineMetrics [ABCMetrics_zero, a] = a"
proof
  show "CombineMetrics [a, ABCMetrics_zero] = a"
    by (rule ABCMetrics.equality; simp add: CombineMetrics_fields)
       (simp_all add: ABCMetrics_zero_def)
  show "CombineMetrics [ABCMetrics_zero, a] = a"
    by (rule ABCMetrics.equality; simp add: CombineMetrics_fields)
       (simp_all add: ABCMetrics_zero_def)
qed

lemma count_of_length:
  assumes "int n = sint (w :: 64 word)"
  shows "w = word_of_nat n"
proof -
  have "w = word_of_int (sint w)" by simp
  also have "\<dots> = word_of_int (int n)" using assms by simp
  also have "\<dots> = word_of_nat n" by simp
  finally show ?thesis .
qed

lemma sum_list_counts:
  fixes g :: "'a \<Rightarrow> 64 word"
  assumes "\<forall>m\<in>set ms. int (length (f m)) = sint (g m)"
  shows "sum_list (map g ms) = word_of_nat (length (concat (map f ms)))"
  using assms by (induction ms) (simp_all add: count_of_length)

lemma combined_count_matches:
  fixes g :: "'a \<Rightarrow> 64 word"
  assumes "\<forall>m\<in>set ms. int (length (f m)) = sint (g m)"
    and "slice_ok (concat (map f ms))"
  shows "int (length (concat (map f ms))) = sint (sum_list (map g ms))"
  using assms(2) by (simp only: sum_list_counts [OF assms(1)] sint_of_nat_64 slice_ok_def)

text \<open>
  C4. CombineMetrics preserves the invariant that the length of each evidence list
  equals its count: when it holds of every argument, it holds of the result. The
  combined lists are Go slices, so each is shorter than \<open>2 ^ 63\<close>.
\<close>

theorem CombineMetrics_counts_match:
  assumes "\<forall>m\<in>set ms. counts_match m"
    and "slices_ok (CombineMetrics ms)"
  shows "counts_match (CombineMetrics ms)"
proof -
  have "int (length (concat (map AssignmentList ms))) = sint (sum_list (map Assignments ms))"
    using assms by (intro combined_count_matches)
      (simp_all add: counts_match_def slices_ok_def CombineMetrics_fields)
  moreover
  have "int (length (concat (map BranchList ms))) = sint (sum_list (map Branches ms))"
    using assms by (intro combined_count_matches)
      (simp_all add: counts_match_def slices_ok_def CombineMetrics_fields)
  moreover
  have "int (length (concat (map ConditionList ms))) = sint (sum_list (map Conditions ms))"
    using assms by (intro combined_count_matches)
      (simp_all add: counts_match_def slices_ok_def CombineMetrics_fields)
  ultimately show ?thesis
    by (simp only: counts_match_def CombineMetrics_fields)
qed

theorem CombineMetrics_counts_match_witness:
  "counts_match \<lparr>Assignments = 1, Branches = 1, Conditions = 0,
        AssignmentList = [\<lparr>Line = 3, Col = 1, Text = ''x'', Context = ''Assignment (1 variables)''\<rparr>],
        BranchList = [\<lparr>Line = 4, Col = 1, Text = ''f'', Context = ''Function call''\<rparr>],
        ConditionList = []\<rparr>
   \<and> counts_match \<lparr>Assignments = 1, Branches = 0, Conditions = 1,
        AssignmentList = [\<lparr>Line = 2, Col = 1, Text = ''y'', Context = ''Assignment (1 variables)''\<rparr>],
        BranchList = [],
        ConditionList = [\<lparr>Line = 9, Col = 1, Text = ''if statement'', Context = ''Condition''\<rparr>]\<rparr>
   \<and> slices_ok (CombineMetrics [\<lparr>Assignments = 1, Branches = 1, Conditions = 0,
        AssignmentList = [\<lparr>Line = 3, Col = 1, Text = ''x'', Context = ''Assignment (1 variables)''\<rparr>],
        BranchList = [\<lparr>Line = 4, Col = 1, Text = ''f'', Context = ''Function call''\<rparr>],
        ConditionList = []\<rparr>, \<lparr>Assignments = 1, Branches = 0, Conditions = 1,
        AssignmentList = [\<lparr>Line = 2, Col = 1, Text = ''y'', Context = ''Assignment (1 variables)''\<rparr>],
        BranchList = [],
        ConditionList = [\<lparr>Line = 9, Col = 1, Text = ''if statement'', Context = ''Condition''\<rparr>]\<rparr>])
   \<and> counts_match (CombineMetrics [\<lparr>Assignments = 1, Branches = 1, Conditions = 0,
        AssignmentList = [\<lparr>Line = 3, Col = 1, Text = ''x'', Context = ''Assignment (1 variables)''\<rparr>],
        BranchList = [\<lparr>Line = 4, Col = 1, Text = ''f'', Context = ''Function call''\<rparr>],
        ConditionList = []\<rparr>, \<lparr>Assignments = 1, Branches = 0, Conditions = 1,
        AssignmentList = [\<lparr>Line = 2, Col = 1, Text = ''y'', Context = ''Assignment (1 variables)''\<rparr>],
        BranchList = [],
        ConditionList = [\<lparr>Line = 9, Col = 1, Text = ''if statement'', Context = ''Condition''\<rparr>]\<rparr>])
   \<and> CombineMetrics [\<lparr>Assignments = 1, Branches = 1, Conditions = 0,
        AssignmentList = [\<lparr>Line = 3, Col = 1, Text = ''x'', Context = ''Assignment (1 variables)''\<rparr>],
        BranchList = [\<lparr>Line = 4, Col = 1, Text = ''f'', Context = ''Function call''\<rparr>],
        ConditionList = []\<rparr>, \<lparr>Assignments = 1, Branches = 0, Conditions = 1,
        AssignmentList = [\<lparr>Line = 2, Col = 1, Text = ''y'', Context = ''Assignment (1 variables)''\<rparr>],
        BranchList = [],
        ConditionList = [\<lparr>Line = 9, Col = 1, Text = ''if statement'', Context = ''Condition''\<rparr>]\<rparr>] = \<lparr>Assignments = 2, Branches = 1, Conditions = 1,
        AssignmentList = [\<lparr>Line = 3, Col = 1, Text = ''x'', Context = ''Assignment (1 variables)''\<rparr>, \<lparr>Line = 2, Col = 1, Text = ''y'', Context = ''Assignment (1 variables)''\<rparr>],
        BranchList = [\<lparr>Line = 4, Col = 1, Text = ''f'', Context = ''Function call''\<rparr>],
        ConditionList = [\<lparr>Line = 9, Col = 1, Text = ''if statement'', Context = ''Condition''\<rparr>]\<rparr>"
proof -
  have a: "counts_match \<lparr>Assignments = 1, Branches = 1, Conditions = 0,
        AssignmentList = [\<lparr>Line = 3, Col = 1, Text = ''x'', Context = ''Assignment (1 variables)''\<rparr>],
        BranchList = [\<lparr>Line = 4, Col = 1, Text = ''f'', Context = ''Function call''\<rparr>],
        ConditionList = []\<rparr>"
    by (simp add: counts_match_def)
  have b: "counts_match \<lparr>Assignments = 1, Branches = 0, Conditions = 1,
        AssignmentList = [\<lparr>Line = 2, Col = 1, Text = ''y'', Context = ''Assignment (1 variables)''\<rparr>],
        BranchList = [],
        ConditionList = [\<lparr>Line = 9, Col = 1, Text = ''if statement'', Context = ''Condition''\<rparr>]\<rparr>"
    by (simp add: counts_match_def)
  have h1: "\<forall>m\<in>set [\<lparr>Assignments = 1, Branches = 1, Conditions = 0,
        AssignmentList = [\<lparr>Line = 3, Col = 1, Text = ''x'', Context = ''Assignment (1 variables)''\<rparr>],
        BranchList = [\<lparr>Line = 4, Col = 1, Text = ''f'', Context = ''Function call''\<rparr>],
        ConditionList = []\<rparr>, \<lparr>Assignments = 1, Branches = 0, Conditions = 1,
        AssignmentList = [\<lparr>Line = 2, Col = 1, Text = ''y'', Context = ''Assignment (1 variables)''\<rparr>],
        BranchList = [],
        ConditionList = [\<lparr>Line = 9, Col = 1, Text = ''if statement'', Context = ''Condition''\<rparr>]\<rparr>]. counts_match m"
    using a b by simp
  have h2: "slices_ok (CombineMetrics [\<lparr>Assignments = 1, Branches = 1, Conditions = 0,
        AssignmentList = [\<lparr>Line = 3, Col = 1, Text = ''x'', Context = ''Assignment (1 variables)''\<rparr>],
        BranchList = [\<lparr>Line = 4, Col = 1, Text = ''f'', Context = ''Function call''\<rparr>],
        ConditionList = []\<rparr>, \<lparr>Assignments = 1, Branches = 0, Conditions = 1,
        AssignmentList = [\<lparr>Line = 2, Col = 1, Text = ''y'', Context = ''Assignment (1 variables)''\<rparr>],
        BranchList = [],
        ConditionList = [\<lparr>Line = 9, Col = 1, Text = ''if statement'', Context = ''Condition''\<rparr>]\<rparr>])"
    by (simp add: slices_ok_def slice_ok_def CombineMetrics_def ABCMetrics_zero_def)
  have "CombineMetrics [\<lparr>Assignments = 1, Branches = 1, Conditions = 0,
        AssignmentList = [\<lparr>Line = 3, Col = 1, Text = ''x'', Context = ''Assignment (1 variables)''\<rparr>],
        BranchList = [\<lparr>Line = 4, Col = 1, Text = ''f'', Context = ''Function call''\<rparr>],
        ConditionList = []\<rparr>, \<lparr>Assignments = 1, Branches = 0, Conditions = 1,
        AssignmentList = [\<lparr>Line = 2, Col = 1, Text = ''y'', Context = ''Assignment (1 variables)''\<rparr>],
        BranchList = [],
        ConditionList = [\<lparr>Line = 9, Col = 1, Text = ''if statement'', Context = ''Condition''\<rparr>]\<rparr>] = \<lparr>Assignments = 2, Branches = 1, Conditions = 1,
        AssignmentList = [\<lparr>Line = 3, Col = 1, Text = ''x'', Context = ''Assignment (1 variables)''\<rparr>, \<lparr>Line = 2, Col = 1, Text = ''y'', Context = ''Assignment (1 variables)''\<rparr>],
        BranchList = [\<lparr>Line = 4, Col = 1, Text = ''f'', Context = ''Function call''\<rparr>],
        ConditionList = [\<lparr>Line = 9, Col = 1, Text = ''if statement'', Context = ''Condition''\<rparr>]\<rparr>"
    by (simp add: CombineMetrics_def ABCMetrics_zero_def)
  with a b h2 CombineMetrics_counts_match [OF h1 h2] show ?thesis
    by (intro conjI)
qed

section \<open>The rendered summary and the detail listing\<close>

lemma nat_digits_small: "n < 10 \<Longrightarrow> nat_digits n = [digit_char n]"
  by (simp add: nat_digits.simps)

lemma nat_digits_step:
  "10 \<le> n \<Longrightarrow> nat_digits n = nat_digits (n div 10) @ [digit_char (n mod 10)]"
  by (subst nat_digits.simps) simp

lemma fmt_d_of_nat: "n < 2 ^ 63 \<Longrightarrow> fmt_d (word_of_nat n) = nat_digits n"
  by (simp add: fmt_d_def sint_of_nat_64)

lemma round_half_even_near:
  assumes "0 \<le> x"
  shows "\<bar>real (round_half_even x) - x\<bar> \<le> 1 / 2"
proof -
  define f where "f = \<lfloor>x\<rfloor>"
  have f0: "0 \<le> f"
    using assms by (simp add: f_def)
  have lo: "of_int f \<le> x" and hi: "x < of_int f + 1"
    by (simp_all add: f_def)
  have n: "real (nat f) = of_int f"
    using f0 by simp
  consider "x - of_int f < 1 / 2" | "1 / 2 < x - of_int f" | "x - of_int f = 1 / 2"
    by linarith
  then show ?thesis
  proof cases
    case 1
    then have "round_half_even x = nat f"
      by (simp add: round_half_even_def f_def)
    then show ?thesis using 1 lo n by simp
  next
    case 2
    then have "round_half_even x = nat f + 1"
      by (simp add: round_half_even_def f_def)
    then show ?thesis using 2 hi n by simp
  next
    case 3
    then have "round_half_even x = nat f \<or> round_half_even x = nat f + 1"
      by (simp add: round_half_even_def f_def Let_def)
    then show ?thesis using 3 n by auto
  qed
qed

lemma fmt_f2_rounds:
  assumes "0 \<le> r"
  shows "\<exists>q. \<bar>real q - r * 100\<bar> \<le> 1 / 2
           \<and> fmt_f2 (Finite r) =
               nat_digits (q div 100) @ ''.'' @ [digit_char (q div 10 mod 10), digit_char (q mod 10)]"
proof -
  have "\<bar>real (round_half_even (r * 100)) - r * 100\<bar> \<le> 1 / 2"
    using assms by (intro round_half_even_near) simp
  moreover have "fmt_f2 (Finite r) =
      nat_digits (round_half_even (r * 100) div 100) @ ''.''
      @ [digit_char (round_half_even (r * 100) div 10 mod 10),
         digit_char (round_half_even (r * 100) mod 10)]"
    using assms by (simp add: fixed2_def Let_def)
  ultimately show ?thesis by blast
qed

lemma Score_Finite_nonneg: "Score m = Finite r \<Longrightarrow> 0 \<le> r"
  by (auto simp add: Score_def float64_of_int_def split: if_splits)

text \<open>
  C7. The summary rendered by String is the text \<open>ABC: \<close>, the score formatted by
  \<^verbatim>\<open>%.2f\<close>, \<open> (A=\<close>, the assignment count in decimal, \<open>, B=\<close>, the branch count,
  \<open>, C=\<close>, the condition count, and a closing parenthesis. When the score is a number,
  its rendering is that of the nearest hundredth: the digits of \<open>q div 100\<close>, a point and
  the two digits of \<open>q mod 100\<close>, for a natural number q within one half of 100 times the
  score.
\<close>

theorem String_format:
  "String m =
     ''ABC: '' @ fmt_f2 (Score m) @ '' (A='' @ fmt_d (Assignments m)
     @ '', B='' @ fmt_d (Branches m) @ '', C='' @ fmt_d (Conditions m) @ '')''
   \<and> (\<forall>r. Score m = Finite r \<longrightarrow>
         (\<exists>q. \<bar>real q - r * 100\<bar> \<le> 1 / 2
              \<and> fmt_f2 (Score m) =
                  nat_digits (q div 100) @ ''.''
                  @ [digit_char (q div 10 mod 10), digit_char (q mod 10)]))"
proof (intro conjI allI impI)
  show "String m =
     ''ABC: '' @ fmt_f2 (Score m) @ '' (A='' @ fmt_d (Assignments m)
     @ '', B='' @ fmt_d (Branches m) @ '', C='' @ fmt_d (Conditions m) @ '')''"
    by (simp add: String_def)
next
  fix r
  assume s: "Score m = Finite r"
  then have "0 \<le> r"
    by (rule Score_Finite_nonneg)
  then show "\<exists>q. \<bar>real q - r * 100\<bar> \<le> 1 / 2
              \<and> fmt_f2 (Score m) =
                  nat_digits (q div 100) @ ''.''
                  @ [digit_char (q div 10 mod 10), digit_char (q mod 10)]"
    unfolding s by (rule fmt_f2_rounds)
qed

theorem String_format_witness:
  "Score \<lparr>Assignments = 3, Branches = 4, Conditions = 12,
      AssignmentList = [], BranchList = [], ConditionList = []\<rparr> = Finite 13
   \<and> (\<exists>q. \<bar>real q - 13 * 100\<bar> \<le> 1 / 2
          \<and> fmt_f2 (Finite 13) =
              nat_digits (q div 100) @ ''.''
              @ [digit_char (q div 10 mod 10), digit_char (q mod 10)])
   \<and> String \<lparr>Assignments = 3, Branches = 4, Conditions = 12,
      AssignmentList = [], BranchList = [], ConditionList = []\<rparr> = ''ABC: 13.00 (A=3, B=4, C=12)''"
proof -
  have s: "Score \<lparr>Assignments = 3, Branches = 4, Conditions = 12,
      AssignmentList = [], BranchList = [], ConditionList = []\<rparr> = Finite 13"
    by (simp add: Score_def Score_arg_def float64_of_int_def)
  note t = String_format [of "\<lparr>Assignments = 3, Branches = 4, Conditions = 12,
      AssignmentList = [], BranchList = [], ConditionList = []\<rparr>"]
  have e: "\<exists>q. \<bar>real q - 13 * 100\<bar> \<le> 1 / 2
          \<and> fmt_f2 (Finite 13) =
              nat_digits (q div 100) @ ''.''
              @ [digit_char (q div 10 mod 10), digit_char (q mod 10)]"
    using t [THEN conjunct2, rule_format, OF s] unfolding s .
  have "String \<lparr>Assignments = 3, Branches = 4, Conditions = 12,
      AssignmentList = [], BranchList = [], ConditionList = []\<rparr> = ''ABC: '' @ fmt_f2 (Finite 13) @ '' (A='' @ fmt_d 3
     @ '', B='' @ fmt_d 4 @ '', C='' @ fmt_d 12 @ '')''"
    using t unfolding s by simp
  then have "String \<lparr>Assignments = 3, Branches = 4, Conditions = 12,
      AssignmentList = [], BranchList = [], ConditionList = []\<rparr> = ''ABC: 13.00 (A=3, B=4, C=12)''"
    by (simp add: fixed2_def round_half_even_def fmt_d_def nat_digits_small nat_digits_step
        digit_char_def)
  with s e show ?thesis
    by (intro conjI)
qed

lemma Sprintf_detail_line:
  "Sprintf ''  %d. Line %d: %s (%s)\<newline>'' [IntArg i, IntArg l, StringArg t, StringArg c] =
     ''  '' @ fmt_d i @ ''. Line '' @ fmt_d l @ '': '' @ t @ '' ('' @ c @ '')\<newline>''"
  by simp

lemma upt_0_Suc: "[0..<Suc n] = 0 # map Suc [0..<n]"
  by (simp only: map_Suc_upt upt_conv_Cons zero_less_Suc)

lemma print_detail_loop_eq:
  "print_detail_loop i ds =
     concat (map (\<lambda>k. ''  '' @ fmt_d (i + word_of_nat k + 1) @ ''. Line '' @ fmt_d (Line (ds ! k))
                    @ '': '' @ Text (ds ! k) @ '' ('' @ Context (ds ! k) @ '')\<newline>'')
               [0..<length ds])"
proof (induction ds arbitrary: i)
  case Nil
  show ?case by simp
next
  case (Cons d ds)
  have idx: "i + 1 + word_of_nat k + 1 = i + word_of_nat (Suc k) + 1" for k
    by simp
  show ?case
    by (simp only: print_detail_loop.simps Sprintf_detail_line Cons.IH length_Cons upt_0_Suc
        list.map map_map comp_def concat.simps nth_Cons_0 nth_Cons_Suc idx)
       simp
qed

lemma print_detail_loop_listing:
  assumes "slice_ok ds"
  shows "print_detail_loop 0 ds = spec_detail_listing ds"
proof -
  have "fmt_d (0 + word_of_nat k + 1) = nat_digits (k + 1)" if "k < length ds" for k
  proof -
    have "Suc k < 2 ^ 63"
      using that assms by (simp add: slice_ok_def)
    then have "fmt_d (word_of_nat (Suc k)) = nat_digits (Suc k)"
      by (rule fmt_d_of_nat)
    then show ?thesis by (simp add: add.commute)
  qed
  then have "map (\<lambda>k. ''  '' @ fmt_d (0 + word_of_nat k + 1) @ ''. Line '' @ fmt_d (Line (ds ! k))
                    @ '': '' @ Text (ds ! k) @ '' ('' @ Context (ds ! k) @ '')\<newline>'')
               [0..<length ds]
           = map (\<lambda>k. spec_detail_line (k + 1) (ds ! k) @ ''\<newline>'') [0..<length ds]"
    by (intro map_cong refl) (simp add: spec_detail_line_def)
  then show ?thesis
    by (simp only: print_detail_loop_eq spec_detail_listing_def)
qed

text \<open>
  C8. When details are requested, the report ends with the detail listing: the heading
  \<open>Assignments:\<close> and one line per assignment record, then the heading \<open>Branches:\<close> and
  one line per branch record, then the heading \<open>Conditions:\<close> and one line per condition
  record. Each line is two spaces, the index, \<open>. Line \<close>, the line number, \<open>: \<close>, the
  text, and the context in parentheses; the records of a list appear in list order and
  the first has index 1. When details are not requested the report has no listing.
\<close>

theorem detail_listing_format:
  assumes "slices_ok m"
  shows "analyzeCmd_report True m = analyzeCmd_report False m @ print_details m
       \<and> print_details m =
           ''\<newline>Assignments:\<newline>'' @ spec_detail_listing (AssignmentList m)
           @ ''\<newline>Branches:\<newline>'' @ spec_detail_listing (BranchList m)
           @ ''\<newline>Conditions:\<newline>'' @ spec_detail_listing (ConditionList m)
       \<and> analyzeCmd_report False m =
           String m @ ''\<newline>Complexity: '' @ SeverityLevel (Score m) @ ''\<newline>''"
  using assms
  by (simp add: analyzeCmd_report_def print_details_def Println_def slices_ok_def
      print_detail_loop_listing)

theorem detail_listing_format_witness:
  "slices_ok \<lparr>Assignments = 2, Branches = 2, Conditions = 0,
      AssignmentList =
        [\<lparr>Line = 3, Col = 2, Text = ''x, y'', Context = ''Assignment (2 variables)''\<rparr>],
      BranchList =
        [\<lparr>Line = 12, Col = 5, Text = ''fmt.Println'', Context = ''Function call''\<rparr>,
         \<lparr>Line = 14, Col = 1, Text = ''f'', Context = ''Function call''\<rparr>],
      ConditionList = []\<rparr>
   \<and> print_details \<lparr>Assignments = 2, Branches = 2, Conditions = 0,
      AssignmentList =
        [\<lparr>Line = 3, Col = 2, Text = ''x, y'', Context = ''Assignment (2 variables)''\<rparr>],
      BranchList =
        [\<lparr>Line = 12, Col = 5, Text = ''fmt.Println'', Context = ''Function call''\<rparr>,
         \<lparr>Line = 14, Col = 1, Text = ''f'', Context = ''Function call''\<rparr>],
      ConditionList = []\<rparr> =
     ''\<newline>Assignments:\<newline>  1. Line 3: x, y (Assignment (2 variables))\<newline>''
     @ ''\<newline>Branches:\<newline>  1. Line 12: fmt.Println (Function call)\<newline>''
     @ ''  2. Line 14: f (Function call)\<newline>''
     @ ''\<newline>Conditions:\<newline>''"
proof -
  have h: "slices_ok \<lparr>Assignments = 2, Branches = 2, Conditions = 0,
      AssignmentList =
        [\<lparr>Line = 3, Col = 2, Text = ''x, y'', Context = ''Assignment (2 variables)''\<rparr>],
      BranchList =
        [\<lparr>Line = 12, Col = 5, Text = ''fmt.Println'', Context = ''Function call''\<rparr>,
         \<lparr>Line = 14, Col = 1, Text = ''f'', Context = ''Function call''\<rparr>],
      ConditionList = []\<rparr>"
    by (simp add: slices_ok_def slice_ok_def)
  show ?thesis
    using h detail_listing_format [OF h]
    by (simp add: spec_detail_listing_def spec_detail_line_def
        fmt_d_def nat_digits_small nat_digits_step digit_char_def upt_rec [of 0 2]
        upt_rec [of 1 2])
qed

end
